theory Spec2Isabelle
  imports Main "HOL-Library.Word" "HOL-Library.Signed_Division"
begin

section \<open>BLHeli32GKE: the commutation and governor core (MULTI build)\<close>

text \<open>
  The source selects \<^verbatim>\<open>MODE == MULTI_MODE\<close>; \<^verbatim>\<open>DAMPED_MODE_ENABLE\<close>,
  \<^verbatim>\<open>HIGH_DRIVER_PRECHG_TIME\<close> and \<^verbatim>\<open>MODE_MAIN\<close> are not defined, so the
  preprocessor reads them as 0. Only the branches that this build compiles are embedded;
  routines whose body is commented out in the source are the identity.
\<close>

subsection \<open>Machine integers\<close>

type_synonym int32 = "32 word"
type_synonym uint8 = "8 word"

datatype error = Division_By_Zero | Division_Overflow

text \<open>
  C division on \<^verbatim>\<open>int32\<close> truncates towards zero. Its behaviour is undefined when the
  divisor is zero, and when the quotient does not fit (\<open>INT_MIN / -1\<close>): these are the
  error results.
\<close>

definition c_div :: "int32 \<Rightarrow> int32 \<Rightarrow> error + int32" where
  "c_div a b = (if b = 0 then Inl Division_By_Zero
                else if a = - (2 ^ 31) \<and> b = - 1 then Inl Division_Overflow
                else Inr (word_of_int (sint a sdiv sint b)))"

text \<open>C truth value of a comparison, stored in an \<^verbatim>\<open>int32\<close>.\<close>

definition c_bool :: "bool \<Rightarrow> int32" where
  "c_bool b = (if b then 1 else 0)"

subsection \<open>Constants of the MULTI build\<close>

definition RCP_STOP :: int32 where "RCP_STOP = 1"
definition RCP_STOP_LIMIT :: int32 where "RCP_STOP_LIMIT = 250"
definition NFETON_DELAY :: int32 where "NFETON_DELAY = 0"
definition PFETON_DELAY :: int32 where "PFETON_DELAY = 0"

definition run1 :: int32 where "run1 = 0"
definition run2 :: int32 where "run2 = 1"
definition run3 :: int32 where "run3 = 2"
definition run4 :: int32 where "run4 = 3"
definition run5 :: int32 where "run5 = 4"
definition run6 :: int32 where "run6 = 5"

subsection \<open>Data\<close>

text \<open>The stored parameter struct \<^verbatim>\<open>P\<close>.\<close>

record Params =
  FW_Main_Revision :: int32
  FW_Sub_Revision :: int32
  Layout_Revision :: int32
  Gov_I_Gain :: int32
  Gov_P_Gain :: int32
  Gov_Mode :: int32
  Low_Voltage_Lim :: int32
  Motor_Gain :: int32
  Motor_Idle :: int32
  Startup_Pwr :: int32
  Pwm_Freq :: int32
  Direction :: int32
  Input_Pol :: int32
  Initialized :: int32
  Enable_TX_Program :: int32
  Main_Rearm_Start :: int32
  Gov_Setup_Target :: int32
  Startup_Rpm :: int32
  Startup_Accel :: int32
  Volt_Comp :: int32
  Comm_Timing :: int32
  Damping_Force :: int32
  Gov_Range :: int32
  Startup_Method :: int32
  Ppm_Min_Throttle :: int32
  Ppm_Max_Throttle :: int32
  Beep_Strength :: int32
  Beacon_Strength :: int32
  Beacon_Delay :: int32
  Throttle_Rate :: int32
  Demag_Comp :: int32
  BEC_Voltage_High :: int32
  Ppm_Center_Throttle :: int32
  Main_Spoolup_Time :: int32
  Temp_Prot_Enable :: int32
  Dummy :: int32
  Name :: "uint8 list"

text \<open>
  The flag word \<^verbatim>\<open>F\<close>. Its type \<^verbatim>\<open>Flags\<close> is declared in a header that is not part
  of the source; each flag the compiled code touches is a boolean here.
\<close>

record Flags =
  PWM_ON :: bool
  MOTOR_SPINNING :: bool
  DEMAG_CUT_POWER :: bool
  DEMAG_DETECTED :: bool
  STARTUP_PHASE :: bool
  INITIAL_RUN_PHASE :: bool
  DIR_CHANGE_BRAKE :: bool
  PGM_PWMOFF_DAMPED :: bool
  PGM_DIR_REV :: bool
  PGM_RCP_PWM_POL :: bool
  PGM_PWM_HIGH_FREQ :: bool
  RCP_PPM :: bool
  T3_PENDING :: bool

text \<open>The routines a \<^verbatim>\<open>FETFuncPtr\<close> can point to (\<^verbatim>\<open>DPTR\<close> starts as \<^verbatim>\<open>NULL\<close>).\<close>

datatype FETFuncPtr =
  PTR_pwm_noBnFET_off | PTR_pwm_aBnFET_off | PTR_pwm_bBnFET_off | PTR_pwm_cBnFET_off
| PTR_pwm_anfet_bpBnFET_off | PTR_pwm_anfet_cpBnFET_off | PTR_pwm_bnfet_cpBnFET_off
| PTR_pwm_bnfet_apBnFET_off | PTR_pwm_cnfet_apBnFET_off | PTR_pwm_cnfet_bpBnFET_off

text \<open>
  The power stage. A pFET is the high-side switch of its leg, an nFET the low-side one.
\<close>

datatype leg = LegA | LegB | LegC
datatype side = High | Low

datatype hw_event =
  Switch leg side bool
| Delay nat
| Wait_uS int32
| Comp_Phase leg
| RPM_Out bool

record state =
  Temp1 :: int32
  Temp3 :: int32
  Temp7 :: int32
  Temp8 :: int32
  A :: int32
  TL1 :: int32
  Requested_Pwm :: int32
  Governor_Req_Pwm :: int32
  Current_Pwm :: int32
  Current_Pwm_Limited :: int32
  Rcp_Timeout_Cnt :: int32
  F :: Flags
  DPTR :: "FETFuncPtr option"
  runState :: int32
  Startup_Rot_Cnt :: int32
  Startup_Ok_Cnt :: int32
  Demag_Detected_Metric :: int32
  Comm_Period4x :: int32
  Comm_Phase :: int32
  Comparator_Read_Cnt :: int32
  Gov_Target :: int32
  Gov_Integral :: int32
  Gov_Integral_X :: int32
  Gov_Proportional :: int32
  Gov_Active :: int32
  Wt_Comm :: int32
  New_Rcp :: int32
  Rcp_Stop_Cnt :: int32
  Auto_Bailout_Armed :: int32
  Pwm_Limit :: int32
  Pwm_Limit_Spoolup :: int32
  Pwm_Limit_Low_Rpm :: int32
  Pwm_Spoolup_Beg :: int32
  Pwm_Motor_Idle :: int32
  Spoolup_Limit_Cnt :: int32
  Spoolup_Limit_Skip :: int32
  P :: Params
  FET :: "leg \<Rightarrow> side \<Rightarrow> bool"
  Log :: "hw_event list"


subsection \<open>Statement sequences\<close>

text \<open>A C statement list: the state is passed through the statements from left to right.\<close>

definition seq :: "(state \<Rightarrow> state) list \<Rightarrow> state \<Rightarrow> state" where
  "seq fs s = fold (\<lambda>f. f) fs s"

subsection \<open>ESC specific externals\<close>

text \<open>
  Modelled from the spec: the ESC pin macros (\<^verbatim>\<open>escincludes/Turnigy_Plush_30A.inc\<close>) are
  not part of the source, whose FET, comparator and RPM routines have empty bodies.
  Following the interface \<^verbatim>\<open>setSwitch(leg, side, on)\<close>, ``the only way the core affects
  motor hardware'', a FET routine sets the commanded state of its switch; every command
  is also appended to \<open>Log\<close>, in program order.
\<close>

definition setSwitch :: "leg \<Rightarrow> side \<Rightarrow> bool \<Rightarrow> state \<Rightarrow> state" where
  "setSwitch l sd on s =
     s\<lparr>FET := (FET s)(l := (FET s l)(sd := on)), Log := Log s @ [Switch l sd on]\<rparr>"

definition AnFET_on :: "state \<Rightarrow> state" where "AnFET_on = setSwitch LegA Low True"
definition AnFET_off :: "state \<Rightarrow> state" where "AnFET_off = setSwitch LegA Low False"
definition ApFET_on :: "state \<Rightarrow> state" where "ApFET_on = setSwitch LegA High True"
definition ApFET_off :: "state \<Rightarrow> state" where "ApFET_off = setSwitch LegA High False"
definition BnFET_on :: "state \<Rightarrow> state" where "BnFET_on = setSwitch LegB Low True"
definition BnFET_off :: "state \<Rightarrow> state" where "BnFET_off = setSwitch LegB Low False"
definition BpFET_on :: "state \<Rightarrow> state" where "BpFET_on = setSwitch LegB High True"
definition BpFET_off :: "state \<Rightarrow> state" where "BpFET_off = setSwitch LegB High False"
definition CnFET_on :: "state \<Rightarrow> state" where "CnFET_on = setSwitch LegC Low True"
definition CnFET_off :: "state \<Rightarrow> state" where "CnFET_off = setSwitch LegC Low False"
definition CpFET_on :: "state \<Rightarrow> state" where "CpFET_on = setSwitch LegC High True"
definition CpFET_off :: "state \<Rightarrow> state" where "CpFET_off = setSwitch LegC High False"

definition All_nFETs_on :: "state \<Rightarrow> state" where
  "All_nFETs_on = seq [AnFET_on, BnFET_on, CnFET_on]"
definition All_nFETs_off :: "state \<Rightarrow> state" where
  "All_nFETs_off = seq [AnFET_off, BnFET_off, CnFET_off]"
definition All_pFETs_on :: "state \<Rightarrow> state" where
  "All_pFETs_on = seq [ApFET_on, BpFET_on, CpFET_on]"
definition All_pFETs_off :: "state \<Rightarrow> state" where
  "All_pFETs_off = seq [ApFET_off, BpFET_off, CpFET_off]"

definition Set_Comp_Phase_A :: "state \<Rightarrow> state" where
  "Set_Comp_Phase_A s = s\<lparr>Log := Log s @ [Comp_Phase LegA]\<rparr>"
definition Set_Comp_Phase_B :: "state \<Rightarrow> state" where
  "Set_Comp_Phase_B s = s\<lparr>Log := Log s @ [Comp_Phase LegB]\<rparr>"
definition Set_Comp_Phase_C :: "state \<Rightarrow> state" where
  "Set_Comp_Phase_C s = s\<lparr>Log := Log s @ [Comp_Phase LegC]\<rparr>"

definition Clear_RPM_Out :: "state \<Rightarrow> state" where
  "Clear_RPM_Out s = s\<lparr>Log := Log s @ [RPM_Out False]\<rparr>"
definition Set_RPM_Out :: "state \<Rightarrow> state" where
  "Set_RPM_Out s = s\<lparr>Log := Log s @ [RPM_Out True]\<rparr>"

text \<open>
  Modelled from the spec: \<^verbatim>\<open>Delay1uS\<close> is declared in a header that is not part of the
  source. It is a timing primitive (``wait N ticks''): it changes no variable, and the
  wait is logged.
\<close>

definition Delay1uS :: "int32 \<Rightarrow> state \<Rightarrow> state" where
  "Delay1uS d s = s\<lparr>Log := Log s @ [Wait_uS d]\<rparr>"

text \<open>
  Modelled from the spec: \<^verbatim>\<open>Limit1\<close> is declared in a header that is not part of the
  source. Governor terms are ``each clamped to a signed range'': \<open>Limit1 x l\<close> clamps
  \<open>x\<close> to the range from \<open>- l\<close> to \<open>l\<close>.
\<close>

definition Limit1 :: "int32 \<Rightarrow> int32 \<Rightarrow> int32" where
  "Limit1 x l = (if x <s - l then - l else if l <s x then l else x)"

text \<open>
  \<^verbatim>\<open>#define FET_DELAY(d) {int32 n=d; while(n-->0){}}\<close>: the busy-wait loop, counting its
  iterations; the macro's effect is the time the loop takes, which is logged.
\<close>

function FET_DELAY_loop :: "int32 \<Rightarrow> nat \<Rightarrow> nat" where
  "FET_DELAY_loop n k = (if 0 <s n then FET_DELAY_loop (n - 1) (Suc k) else k)"
  by pat_completeness auto

termination FET_DELAY_loop
proof (relation "measure (\<lambda>(n, k). unat n)")
  show "wf (measure (\<lambda>(n::int32, k::nat). unat n))" by simp
next
  fix n :: int32 and k :: nat
  assume "0 <s n"
  then have "n \<noteq> 0" by auto
  then have "unat (n - 1) < unat n" by (simp add: unat_minus_one unat_gt_0)
  then show "((n - 1, Suc k), (n, k)) \<in> measure (\<lambda>(n, k). unat n)" by simp
qed

declare FET_DELAY_loop.simps [simp del]

definition FET_DELAY :: "int32 \<Rightarrow> state \<Rightarrow> state" where
  "FET_DELAY d s = s\<lparr>Log := Log s @ [Delay (FET_DELAY_loop d 0)]\<rparr>"

subsection \<open>Timer0 interrupt: pwm on and pwm off routines\<close>

text \<open>The body of \<^verbatim>\<open>t0_int_pwm_on_exit\<close> is commented out in the source.\<close>

definition t0_int_pwm_on_exit :: "state \<Rightarrow> state" where
  "t0_int_pwm_on_exit s = s"

definition t0_int_pwm_off_exit :: "state \<Rightarrow> state" where
  "t0_int_pwm_off_exit s = s\<lparr>TL1 := 0\<rparr>"

definition t0_int_pwm_off_damped :: "state \<Rightarrow> state" where
  "t0_int_pwm_off_damped = seq
     [All_nFETs_off,
      FET_DELAY PFETON_DELAY,
      (\<lambda>s. s\<lparr>A := Comm_Phase s\<rparr>),
      (\<lambda>s. s\<lparr>A := A s - 1\<rparr>),
      CpFET_on,
      t0_int_pwm_off_exit]"

definition switch_power_off :: "state \<Rightarrow> state" where
  "switch_power_off = seq [All_nFETs_off, All_pFETs_off]"

definition pwm_noBnFET_off :: "state \<Rightarrow> state" where
  "pwm_noBnFET_off = seq [t0_int_pwm_on_exit]"

definition pwm_aBnFET_off :: "state \<Rightarrow> state" where
  "pwm_aBnFET_off = seq [AnFET_on, BnFET_off, t0_int_pwm_on_exit]"

definition pwm_bBnFET_off :: "state \<Rightarrow> state" where
  "pwm_bBnFET_off = seq [BnFET_on, CnFET_off, t0_int_pwm_on_exit]"

definition pwm_cBnFET_off :: "state \<Rightarrow> state" where
  "pwm_cBnFET_off = seq [CnFET_on, AnFET_off, t0_int_pwm_on_exit]"

definition pwm_anfet_bpBnFET_off :: "state \<Rightarrow> state" where
  "pwm_anfet_bpBnFET_off = seq
     [ApFET_off, CpFET_off, FET_DELAY NFETON_DELAY, AnFET_on, BnFET_off, t0_int_pwm_on_exit]"

definition pwm_anfet_cpBnFET_off :: "state \<Rightarrow> state" where
  "pwm_anfet_cpBnFET_off = seq
     [ApFET_off, BpFET_off, FET_DELAY NFETON_DELAY, AnFET_on, BnFET_off, t0_int_pwm_on_exit]"

definition pwm_bnfet_cpBnFET_off :: "state \<Rightarrow> state" where
  "pwm_bnfet_cpBnFET_off = seq
     [BpFET_off, ApFET_off, FET_DELAY NFETON_DELAY, BnFET_on, CnFET_off, t0_int_pwm_on_exit]"

definition pwm_bnfet_apBnFET_off :: "state \<Rightarrow> state" where
  "pwm_bnfet_apBnFET_off = seq
     [BpFET_off, CpFET_off, FET_DELAY NFETON_DELAY, BnFET_on, CnFET_off, t0_int_pwm_on_exit]"

definition pwm_cnfet_apBnFET_off :: "state \<Rightarrow> state" where
  "pwm_cnfet_apBnFET_off = seq
     [CpFET_off, BpFET_off, FET_DELAY NFETON_DELAY, CnFET_on, AnFET_off, t0_int_pwm_on_exit]"

definition pwm_cnfet_bpBnFET_off :: "state \<Rightarrow> state" where
  "pwm_cnfet_bpBnFET_off = seq
     [CpFET_off, ApFET_off, FET_DELAY NFETON_DELAY, CnFET_on, AnFET_off, t0_int_pwm_on_exit]"

text \<open>Calling through a \<^verbatim>\<open>FETFuncPtr\<close>.\<close>

fun call_FETFuncPtr :: "FETFuncPtr \<Rightarrow> state \<Rightarrow> state" where
  "call_FETFuncPtr PTR_pwm_noBnFET_off = pwm_noBnFET_off"
| "call_FETFuncPtr PTR_pwm_aBnFET_off = pwm_aBnFET_off"
| "call_FETFuncPtr PTR_pwm_bBnFET_off = pwm_bBnFET_off"
| "call_FETFuncPtr PTR_pwm_cBnFET_off = pwm_cBnFET_off"
| "call_FETFuncPtr PTR_pwm_anfet_bpBnFET_off = pwm_anfet_bpBnFET_off"
| "call_FETFuncPtr PTR_pwm_anfet_cpBnFET_off = pwm_anfet_cpBnFET_off"
| "call_FETFuncPtr PTR_pwm_bnfet_cpBnFET_off = pwm_bnfet_cpBnFET_off"
| "call_FETFuncPtr PTR_pwm_bnfet_apBnFET_off = pwm_bnfet_apBnFET_off"
| "call_FETFuncPtr PTR_pwm_cnfet_apBnFET_off = pwm_cnfet_apBnFET_off"
| "call_FETFuncPtr PTR_pwm_cnfet_bpBnFET_off = pwm_cnfet_bpBnFET_off"

subsection \<open>Governor (MULTI)\<close>

definition governor_deactivate :: "state \<Rightarrow> state" where
  "governor_deactivate = seq
     [(\<lambda>s. s\<lparr>Current_Pwm := Requested_Pwm s\<rparr>),
      (\<lambda>s. s\<lparr>Gov_Integral_X := 0\<rparr>),
      (\<lambda>s. s\<lparr>Gov_Integral := Gov_Integral_X s\<rparr>),
      (\<lambda>s. s\<lparr>Gov_Target := Gov_Integral s\<rparr>),
      (\<lambda>s. s\<lparr>Gov_Active := c_bool False\<rparr>)]"

definition governor_activate :: "state \<Rightarrow> error + state" where
  "governor_activate s =
     (let s1 = s\<lparr>Gov_Active := c_bool (Gov_Mode (P s) \<noteq> 0)\<rparr>;
          s2 = s1\<lparr>Governor_Req_Pwm := Requested_Pwm s1\<rparr>
      in case c_div 51000 (Requested_Pwm s2) of
           Inl e \<Rightarrow> Inl e
         | Inr q \<Rightarrow> Inr (s2\<lparr>Comm_Period4x := q * 2\<rparr>))"

definition calc_governor_target :: "state \<Rightarrow> error + state" where
  "calc_governor_target s =
     (if Gov_Mode (P s) \<noteq> 0 then governor_activate s
      else if New_Rcp s <s RCP_STOP then Inr (governor_deactivate s)
      else Inr s)"

text \<open>The body of \<^verbatim>\<open>calc_governor_int_error\<close> is empty in the source.\<close>

definition calc_governor_int_error :: "state \<Rightarrow> state" where
  "calc_governor_int_error s = s"

definition calc_governor_prop_error :: "state \<Rightarrow> state" where
  "calc_governor_prop_error s =
     (if Gov_Active s \<noteq> 0 then seq
        [(\<lambda>s. s\<lparr>Gov_Proportional := Governor_Req_Pwm s - Gov_Target s\<rparr>),
         (\<lambda>s. s\<lparr>Gov_Integral_X := Gov_Integral_X s + Gov_Proportional s\<rparr>),
         (\<lambda>s. s\<lparr>Gov_Integral_X := Limit1 (Gov_Integral_X s) 127\<rparr>),
         (\<lambda>s. s\<lparr>Current_Pwm := Limit1 (Current_Pwm s) (Pwm_Limit s)\<rparr>)] s
      else s)"

text \<open>
  The divisor 16 is a constant, so these divisions are always defined. Signed overflow of
  \<^verbatim>\<open>+\<close>, \<^verbatim>\<open>-\<close> and \<^verbatim>\<open>*\<close> wraps around in the model.
\<close>

definition calc_governor_prop_correction :: "state \<Rightarrow> state" where
  "calc_governor_prop_correction s =
     (if Gov_Active s \<noteq> 0 then seq
        [(\<lambda>s. s\<lparr>Gov_Proportional :=
                 word_of_int (sint (Gov_P_Gain (P s) * Gov_Proportional s) sdiv 16)\<rparr>),
         (\<lambda>s. s\<lparr>Gov_Proportional := Limit1 (Gov_Proportional s) 127\<rparr>)] s
      else s)"

definition calc_governor_int_correction :: "state \<Rightarrow> state" where
  "calc_governor_int_correction s =
     (if Gov_Active s \<noteq> 0 then seq
        [(\<lambda>s. s\<lparr>Gov_Integral :=
                 word_of_int (sint (Gov_I_Gain (P s) * Gov_Integral s) sdiv 16)\<rparr>),
         (\<lambda>s. s\<lparr>Gov_Integral := Limit1 (Gov_Integral s) 127\<rparr>)] s
      else s)"

text \<open>
  The bodies of \<^verbatim>\<open>set_pwm_limit_low_rpm\<close>, \<^verbatim>\<open>start_adc_conversion\<close>,
  \<^verbatim>\<open>check_temp_voltage_and_limit_power\<close>, \<^verbatim>\<open>calc_next_comm_timing\<close>,
  \<^verbatim>\<open>wait_advance_timing\<close>, \<^verbatim>\<open>calc_new_wait_times\<close>, \<^verbatim>\<open>wait_before_zc_scan\<close>,
  \<^verbatim>\<open>evaluate_comparator_integrity\<close> and \<^verbatim>\<open>wait_for_comm\<close> are empty or commented out
  in the source.
\<close>

definition set_pwm_limit_low_rpm :: "state \<Rightarrow> state" where
  "set_pwm_limit_low_rpm s = s"
definition start_adc_conversion :: "state \<Rightarrow> state" where
  "start_adc_conversion s = s"
definition check_temp_voltage_and_limit_power :: "state \<Rightarrow> state" where
  "check_temp_voltage_and_limit_power s = s"
definition calc_next_comm_timing :: "state \<Rightarrow> state" where
  "calc_next_comm_timing s = s"
definition wait_advance_timing :: "state \<Rightarrow> state" where
  "wait_advance_timing s = s"
definition calc_new_wait_times :: "state \<Rightarrow> state" where
  "calc_new_wait_times s = s"
definition wait_before_zc_scan :: "state \<Rightarrow> state" where
  "wait_before_zc_scan s = s"
definition evaluate_comparator_integrity :: "state \<Rightarrow> state" where
  "evaluate_comparator_integrity s = s"
definition wait_for_comm :: "state \<Rightarrow> state" where
  "wait_for_comm s = s"

definition initialize_all_timings :: "state \<Rightarrow> state" where
  "initialize_all_timings s = s\<lparr>Comm_Period4x := 0x7F00\<rparr>"

definition setup_comm_wait :: "state \<Rightarrow> state" where
  "setup_comm_wait s = Delay1uS (Wt_Comm s) s"

subsection \<open>Zero-cross scan\<close>

definition wait_for_comp_out_low :: "state \<Rightarrow> state" where
  "wait_for_comp_out_low = seq
     [(\<lambda>s. s\<lparr>F := (F s)\<lparr>DEMAG_DETECTED := True\<rparr>\<rparr>),
      (\<lambda>s. s\<lparr>Comparator_Read_Cnt := 0\<rparr>)]"

definition wait_for_comp_out_high :: "state \<Rightarrow> state" where
  "wait_for_comp_out_high = seq
     [(\<lambda>s. s\<lparr>F := (F s)\<lparr>DEMAG_DETECTED := True\<rparr>\<rparr>),
      (\<lambda>s. s\<lparr>Comparator_Read_Cnt := 0\<rparr>)]"

text \<open>The body of \<^verbatim>\<open>comp_wait_on_comp_able_not_timed_out\<close> is commented out.\<close>

definition comp_wait_on_comp_able_not_timed_out :: "state \<Rightarrow> state" where
  "comp_wait_on_comp_able_not_timed_out s = s"

text \<open>
  The straight-line part of \<^verbatim>\<open>wait_for_comp_out_not_timed_out\<close>: the number of OK
  readings required (\<open>Temp1\<close>) and of fast consecutive readings (\<open>Temp3\<close>).
\<close>

definition set_comparator_readings :: "state \<Rightarrow> state" where
  "set_comparator_readings = seq
     [(\<lambda>s. s\<lparr>Temp1 := 1\<rparr>),
      (\<lambda>s. s\<lparr>Temp3 := 2\<rparr>),
      (\<lambda>s. if 0x0500 <s Comm_Period4x s then seq
              [(\<lambda>s. s\<lparr>Temp1 := 2\<rparr>),
               (\<lambda>s. if 0x0a00 <s Comm_Period4x s then seq
                       [(\<lambda>s. s\<lparr>Temp1 := 3\<rparr>),
                        (\<lambda>s. if 0x0f00 <s Comm_Period4x s then s\<lparr>Temp3 := 3\<rparr> else s)] s
                     else s)] s
            else seq [(\<lambda>s. s\<lparr>Temp1 := 30\<rparr>), (\<lambda>s. s\<lparr>Temp3 := 1\<rparr>)] s)]"

text \<open>
  The wait loop that follows. Nothing in the compiled code changes \<open>T3_PENDING\<close> or
  \<open>Comparator_Read_Cnt\<close> while it runs; a run that never leaves the loop is \<open>None\<close>.
\<close>

partial_function (option) comp_wait_loop :: "state \<Rightarrow> state option" where
  "comp_wait_loop s =
     (if T3_PENDING (F s) \<and> Comparator_Read_Cnt s = 0
      then comp_wait_loop (comp_wait_on_comp_able_not_timed_out s)
      else Some s)"

definition wait_for_comp_out_not_timed_out :: "state \<Rightarrow> state option" where
  "wait_for_comp_out_not_timed_out s = comp_wait_loop (set_comparator_readings s)"

subsection \<open>Commutation routines\<close>

definition comm_exit :: "state \<Rightarrow> state" where
  "comm_exit = seq
     [(\<lambda>s. if DIR_CHANGE_BRAKE (F s) then seq
              [switch_power_off, FET_DELAY NFETON_DELAY, FET_DELAY NFETON_DELAY,
               All_pFETs_on] s
            else s),
      (\<lambda>s. s\<lparr>F := (F s)\<lparr>DEMAG_CUT_POWER := False\<rparr>\<rparr>)]"

definition comm1comm2 :: "state \<Rightarrow> state" where
  "comm1comm2 = seq
     [Set_RPM_Out,
      All_pFETs_off,
      (\<lambda>s. if \<not> PGM_PWMOFF_DAMPED (F s) then seq
              [(\<lambda>s. s\<lparr>DPTR := Some PTR_pwm_cnfet_apBnFET_off\<rparr>),
               FET_DELAY NFETON_DELAY] s
            else s),
      ApFET_on,
      Set_Comp_Phase_B,
      (\<lambda>s. s\<lparr>Comm_Phase := 2\<rparr>),
      comm_exit]"

definition comm2comm3 :: "state \<Rightarrow> state" where
  "comm2comm3 = seq
     [Clear_RPM_Out,
      CnFET_off,
      (\<lambda>s. if \<not> PGM_PWMOFF_DAMPED (F s) then seq
              [(\<lambda>s. s\<lparr>DPTR := Some PTR_pwm_bnfet_apBnFET_off\<rparr>),
               BpFET_off, CpFET_off, FET_DELAY NFETON_DELAY] s
            else s\<lparr>DPTR := Some PTR_pwm_bBnFET_off\<rparr>),
      (\<lambda>s. if \<not> PWM_ON (F s) then BnFET_on s else s),
      Set_Comp_Phase_C,
      (\<lambda>s. s\<lparr>Comm_Phase := 3\<rparr>),
      comm_exit]"

definition comm3comm4 :: "state \<Rightarrow> state" where
  "comm3comm4 = seq
     [All_pFETs_off,
      (\<lambda>s. if PGM_PWMOFF_DAMPED (F s) then seq
              [(\<lambda>s. s\<lparr>DPTR := Some PTR_pwm_bnfet_cpBnFET_off\<rparr>),
               FET_DELAY NFETON_DELAY] s
            else s),
      CpFET_on,
      Set_Comp_Phase_A,
      (\<lambda>s. s\<lparr>Comm_Phase := 4\<rparr>),
      comm_exit]"

definition comm4comm5 :: "state \<Rightarrow> state" where
  "comm4comm5 = seq
     [BnFET_off,
      (\<lambda>s. if PGM_PWMOFF_DAMPED (F s) then seq
              [(\<lambda>s. s\<lparr>DPTR := Some PTR_pwm_anfet_cpBnFET_off\<rparr>),
               ApFET_off, BpFET_off, FET_DELAY NFETON_DELAY] s
            else seq
              [(\<lambda>s. s\<lparr>DPTR := Some PTR_pwm_aBnFET_off\<rparr>),
               (\<lambda>s. if PWM_ON (F s) then AnFET_on s else s)] s),
      Set_Comp_Phase_B,
      (\<lambda>s. s\<lparr>Comm_Phase := 5\<rparr>),
      comm_exit]"

definition comm5comm6 :: "state \<Rightarrow> state" where
  "comm5comm6 = seq
     [All_pFETs_off,
      (\<lambda>s. if PGM_PWMOFF_DAMPED (F s) then seq
              [(\<lambda>s. s\<lparr>DPTR := Some PTR_pwm_anfet_bpBnFET_off\<rparr>),
               FET_DELAY NFETON_DELAY] s
            else s),
      BpFET_on,
      Set_Comp_Phase_C,
      (\<lambda>s. s\<lparr>Comm_Phase := 6\<rparr>),
      comm_exit]"

definition comm6comm1 :: "state \<Rightarrow> state" where
  "comm6comm1 = seq
     [AnFET_off,
      (\<lambda>s. if PGM_PWMOFF_DAMPED (F s) then seq
              [(\<lambda>s. s\<lparr>DPTR := Some PTR_pwm_cnfet_bpBnFET_off\<rparr>),
               ApFET_off, CpFET_off, FET_DELAY NFETON_DELAY] s
            else s\<lparr>DPTR := Some PTR_pwm_cBnFET_off\<rparr>),
      (\<lambda>s. if PWM_ON (F s) then CnFET_on s else s),
      Set_Comp_Phase_A,
      (\<lambda>s. s\<lparr>Comm_Phase := 1\<rparr>),
      comm_exit]"

subsection \<open>Parameters and start\<close>

text \<open>
  \<^verbatim>\<open>decode_parameters\<close>. The \<^verbatim>\<open>goto\<close> skips the two assignments to \<open>PGM_DIR_REV\<close>.
  \<^verbatim>\<open>F.PGM_RCP_PWM_POL = P.Input_Pol\<close> stores an integer in a flag: the flag is set when
  the integer is not zero. The condition \<^verbatim>\<open>if (P.Pwm_Freq = 3)\<close> is an assignment: it
  stores 3 in \<^verbatim>\<open>P.Pwm_Freq\<close> and tests the stored value.
\<close>

definition decode_parameters :: "state \<Rightarrow> state" where
  "decode_parameters = seq
     [(\<lambda>s. s\<lparr>Temp8 := Pwm_Freq (P s)\<rparr>),
      (\<lambda>s. s\<lparr>F := (F s)\<lparr>PGM_PWMOFF_DAMPED := False\<rparr>\<rparr>),
      (\<lambda>s. if Direction (P s) = 3 then s
            else seq
              [(\<lambda>s. s\<lparr>F := (F s)\<lparr>PGM_DIR_REV := False\<rparr>\<rparr>),
               (\<lambda>s. s\<lparr>F := (F s)\<lparr>PGM_DIR_REV := True\<rparr>\<rparr>)] s),
      (\<lambda>s. s\<lparr>F := (F s)\<lparr>PGM_RCP_PWM_POL := False\<rparr>\<rparr>),
      (\<lambda>s. s\<lparr>F := (F s)\<lparr>PGM_RCP_PWM_POL := (Input_Pol (P s) \<noteq> 0)\<rparr>\<rparr>),
      (\<lambda>s. s\<lparr>P := (P s)\<lparr>Pwm_Freq := 3\<rparr>\<rparr>),
      (\<lambda>s. if Pwm_Freq (P s) \<noteq> 0
            then s\<lparr>F := (F s)\<lparr>PGM_PWM_HIGH_FREQ := False\<rparr>\<rparr>
            else s\<lparr>F := (F s)\<lparr>PGM_PWM_HIGH_FREQ := True\<rparr>\<rparr>)]"

definition init_start :: "state \<Rightarrow> state" where
  "init_start = seq
     [switch_power_off,
      (\<lambda>s. s\<lparr>Current_Pwm_Limited := 0\<rparr>),
      (\<lambda>s. s\<lparr>Current_Pwm := Current_Pwm_Limited s\<rparr>),
      (\<lambda>s. s\<lparr>Governor_Req_Pwm := Current_Pwm s\<rparr>),
      (\<lambda>s. s\<lparr>Requested_Pwm := Governor_Req_Pwm s\<rparr>),
      (\<lambda>s. s\<lparr>Gov_Integral_X := 0\<rparr>),
      (\<lambda>s. s\<lparr>Gov_Integral := Gov_Integral_X s\<rparr>),
      (\<lambda>s. s\<lparr>Gov_Target := Gov_Integral s\<rparr>),
      (\<lambda>s. s\<lparr>Gov_Active := c_bool False\<rparr>),
      (\<lambda>s. s\<lparr>Demag_Detected_Metric := c_bool False\<rparr>),
      initialize_all_timings,
      check_temp_voltage_and_limit_power,
      (\<lambda>s. s\<lparr>Temp1 := Pwm_Freq (P s)\<rparr>),
      (\<lambda>s. s\<lparr>A := Temp1 s\<rparr>),
      (\<lambda>s. s\<lparr>Temp7 := A s\<rparr>),
      (\<lambda>s. s\<lparr>P := (P s)\<lparr>Pwm_Freq := 2\<rparr>\<rparr>),
      decode_parameters,
      (\<lambda>s. s\<lparr>Temp1 := Pwm_Freq (P s)\<rparr>),
      (\<lambda>s. s\<lparr>A := Temp7 s\<rparr>),
      (\<lambda>s. s\<lparr>Temp1 := Temp7 s\<rparr>),
      (\<lambda>s. s\<lparr>Pwm_Limit := 0xff\<rparr>),
      (\<lambda>s. s\<lparr>Pwm_Limit := Requested_Pwm s\<rparr>),
      (\<lambda>s. s\<lparr>Pwm_Limit_Spoolup := Requested_Pwm s\<rparr>),
      (\<lambda>s. s\<lparr>Pwm_Limit_Low_Rpm := Requested_Pwm s\<rparr>),
      (\<lambda>s. s\<lparr>Requested_Pwm := 1\<rparr>),
      (\<lambda>s. s\<lparr>Current_Pwm := 1\<rparr>),
      (\<lambda>s. s\<lparr>Current_Pwm_Limited := 1\<rparr>),
      (\<lambda>s. s\<lparr>Spoolup_Limit_Cnt := Auto_Bailout_Armed s\<rparr>),
      (\<lambda>s. s\<lparr>Spoolup_Limit_Skip := 1\<rparr>),
      (\<lambda>s. s\<lparr>F := (F s)\<lparr>MOTOR_SPINNING := True\<rparr>\<rparr>),
      (\<lambda>s. s\<lparr>F := (F s)\<lparr>STARTUP_PHASE := MOTOR_SPINNING (F s)\<rparr>\<rparr>),
      (\<lambda>s. s\<lparr>Startup_Ok_Cnt := 0\<rparr>),
      comm5comm6,
      comm6comm1,
      initialize_all_timings,
      calc_next_comm_timing,
      calc_new_wait_times,
      (\<lambda>s. s\<lparr>runState := run1\<rparr>)]"

subsection \<open>Housekeeping between commutations\<close>

datatype start_state =
  validate_setpoint_start
| initialState
| damped_transition
| initial_run_phase_done
| run6_check_speed
| wait_for_power_on
| jmp_wait_for_power_on
| run_to_next_state_main
| init_no_signal
| direct_start_check_setpoint
| direct_start_check_rcp
| run6_check_rcp_stop_count
| run6_check_setpoint_timeout
| run6_check_rcp_timeout
| normal_run_check_startup_rot
| run_to_wait_for_power_on
| normal_run_checks
| run6_check_setpoint_stop_count
| finished_startup

text \<open>
  One pass through the \<^verbatim>\<open>switch (startState)\<close> of \<^verbatim>\<open>DoHousekeeping\<close>, returning the new
  \<^verbatim>\<open>startState\<close>. A value with no \<^verbatim>\<open>case\<close> label runs no statement. In
  \<^verbatim>\<open>direct_start_check_rcp\<close> the statement \<^verbatim>\<open>startState == normal_run_checks;\<close> is a
  comparison and stores nothing. The case \<^verbatim>\<open>run_to_wait_for_power_on\<close> has no
  \<^verbatim>\<open>break\<close> in this build and falls through into \<^verbatim>\<open>jmp_wait_for_power_on\<close>.
\<close>

fun DoHousekeeping_step :: "start_state \<Rightarrow> state \<Rightarrow> start_state \<times> state" where
  "DoHousekeeping_step direct_start_check_rcp s =
     (if RCP_STOP <s New_Rcp s then (run_to_wait_for_power_on, s)
      else (direct_start_check_rcp, s\<lparr>runState := run1\<rparr>))"
| "DoHousekeeping_step normal_run_checks s =
     (if DIR_CHANGE_BRAKE (F s) \<or> INITIAL_RUN_PHASE (F s) then (initial_run_phase_done, s)
      else if 0 <s Startup_Rot_Cnt s then (normal_run_check_startup_rot, s)
      else (damped_transition,
            seq [(\<lambda>s. s\<lparr>F := (F s)\<lparr>INITIAL_RUN_PHASE := False\<rparr>\<rparr>),
                 (\<lambda>s. s\<lparr>Pwm_Limit := 0xFF\<rparr>)] s))"
| "DoHousekeeping_step normal_run_check_startup_rot s =
     (if New_Rcp s <s Startup_Rot_Cnt s then (run_to_wait_for_power_on, s)
      else (finished_startup, s\<lparr>runState := run1\<rparr>))"
| "DoHousekeeping_step initial_run_phase_done s =
     (run6_check_rcp_stop_count,
      if Rcp_Stop_Cnt s = 0 then seq
        [(\<lambda>s. s\<lparr>Pwm_Limit_Spoolup := Pwm_Spoolup_Beg s\<rparr>),
         (\<lambda>s. s\<lparr>Spoolup_Limit_Cnt := Auto_Bailout_Armed s\<rparr>),
         (\<lambda>s. s\<lparr>Spoolup_Limit_Skip := 1\<rparr>)] s
      else s)"
| "DoHousekeeping_step run6_check_rcp_stop_count s =
     (if RCP_STOP_LIMIT <s Rcp_Stop_Cnt s then (run_to_wait_for_power_on, s)
      else (run6_check_rcp_timeout, s))"
| "DoHousekeeping_step run6_check_rcp_timeout s =
     (if \<not> RCP_PPM (F s) then (run6_check_speed, s)
      else if Rcp_Timeout_Cnt s = 0 then (run_to_wait_for_power_on, s)
      else (run6_check_rcp_timeout, s))"
| "DoHousekeeping_step run6_check_speed s =
     (let s1 = (if DIR_CHANGE_BRAKE (F s) then s\<lparr>Temp1 := 0x6000\<rparr>
                else s\<lparr>Temp1 := 0xf000\<rparr>)
      in if Temp1 s1 <s Comm_Period4x s1 then (run_to_wait_for_power_on, s1)
         else (finished_startup, s1\<lparr>runState := run1\<rparr>))"
| "DoHousekeeping_step run_to_wait_for_power_on s =
     (let s1 = seq
            [switch_power_off,
             (\<lambda>s. s\<lparr>Pwm_Motor_Idle := 0\<rparr>),
             (\<lambda>s. s\<lparr>Current_Pwm_Limited := Pwm_Motor_Idle s\<rparr>),
             (\<lambda>s. s\<lparr>Current_Pwm := Current_Pwm_Limited s\<rparr>),
             (\<lambda>s. s\<lparr>Governor_Req_Pwm := Current_Pwm s\<rparr>),
             (\<lambda>s. s\<lparr>Requested_Pwm := Governor_Req_Pwm s\<rparr>),
             (\<lambda>s. s\<lparr>F := (F s)\<lparr>MOTOR_SPINNING := False\<rparr>\<rparr>),
             Delay1uS 1000,
             switch_power_off] s;
          st1 = (if \<not> RCP_PPM (F s1) then jmp_wait_for_power_on
                 else if Rcp_Timeout_Cnt s1 = 0 then init_no_signal
                 else jmp_wait_for_power_on);
          st2 = wait_for_power_on
      in (st2, s1))"
| "DoHousekeeping_step jmp_wait_for_power_on s = (wait_for_power_on, s)"
| "DoHousekeeping_step finished_startup s = (finished_startup, s)"
| "DoHousekeeping_step st s = (st, s)"

text \<open>
  The \<^verbatim>\<open>do ... while (startState != finished_startup)\<close> loop; a run that never leaves
  the loop is \<open>None\<close>.
\<close>

partial_function (option) DoHousekeeping_loop :: "start_state \<Rightarrow> state \<Rightarrow> state option" where
  "DoHousekeeping_loop st s =
     (case DoHousekeeping_step st s of
        (st', s') \<Rightarrow> if st' \<noteq> finished_startup then DoHousekeeping_loop st' s' else Some s')"

definition DoHousekeeping :: "state \<Rightarrow> state option" where
  "DoHousekeeping s = DoHousekeeping_loop initialState s"

subsection \<open>Run entry point\<close>

text \<open>The \<^verbatim>\<open>switch (runState)\<close> of the main commutation loop; it has no default case.\<close>

definition main_switch :: "state \<Rightarrow> error + state" where
  "main_switch s =
     (if runState s = run1 then
        (case calc_governor_target (wait_for_comp_out_high s) of
           Inl e \<Rightarrow> Inl e
         | Inr s1 \<Rightarrow> Inr (seq [wait_for_comm, comm1comm2,
                              (\<lambda>s. s\<lparr>runState := runState s + 1\<rparr>)] s1))
      else if runState s = run2 then
        Inr (seq [wait_for_comp_out_low, calc_governor_prop_error, set_pwm_limit_low_rpm,
                  wait_for_comm, comm2comm3, (\<lambda>s. s\<lparr>runState := runState s + 1\<rparr>)] s)
      else if runState s = run3 then
        Inr (seq [wait_for_comp_out_high, calc_governor_int_error, wait_for_comm,
                  comm3comm4, (\<lambda>s. s\<lparr>runState := runState s + 1\<rparr>)] s)
      else if runState s = run4 then
        Inr (seq [wait_for_comp_out_low, evaluate_comparator_integrity, setup_comm_wait,
                  calc_governor_prop_correction, wait_for_comm, comm4comm5,
                  (\<lambda>s. s\<lparr>runState := runState s + 1\<rparr>)] s)
      else if runState s = run5 then
        Inr (seq [wait_for_comp_out_high, calc_governor_int_correction, wait_for_comm,
                  comm5comm6, (\<lambda>s. s\<lparr>runState := runState s + 1\<rparr>)] s)
      else if runState s = run6 then
        Inr (seq [wait_for_comp_out_low, start_adc_conversion,
                  evaluate_comparator_integrity, setup_comm_wait,
                  check_temp_voltage_and_limit_power, wait_for_comm, comm6comm1,
                  (\<lambda>s. s\<lparr>runState := run1\<rparr>)] s)
      else Inr s)"


subsection \<open>Concrete states\<close>

definition zero_Params :: Params where
  "zero_Params = \<lparr>FW_Main_Revision = 0, FW_Sub_Revision = 0, Layout_Revision = 0,
     Gov_I_Gain = 0, Gov_P_Gain = 0, Gov_Mode = 0, Low_Voltage_Lim = 0, Motor_Gain = 0,
     Motor_Idle = 0, Startup_Pwr = 0, Pwm_Freq = 0, Direction = 0, Input_Pol = 0,
     Initialized = 0, Enable_TX_Program = 0, Main_Rearm_Start = 0, Gov_Setup_Target = 0,
     Startup_Rpm = 0, Startup_Accel = 0, Volt_Comp = 0, Comm_Timing = 0, Damping_Force = 0,
     Gov_Range = 0, Startup_Method = 0, Ppm_Min_Throttle = 0, Ppm_Max_Throttle = 0,
     Beep_Strength = 0, Beacon_Strength = 0, Beacon_Delay = 0, Throttle_Rate = 0,
     Demag_Comp = 0, BEC_Voltage_High = 0, Ppm_Center_Throttle = 0, Main_Spoolup_Time = 0,
     Temp_Prot_Enable = 0, Dummy = 0, Name = replicate 16 0\<rparr>"

definition zero_Flags :: Flags where
  "zero_Flags = \<lparr>PWM_ON = False, MOTOR_SPINNING = False, DEMAG_CUT_POWER = False,
     DEMAG_DETECTED = False, STARTUP_PHASE = False, INITIAL_RUN_PHASE = False,
     DIR_CHANGE_BRAKE = False, PGM_PWMOFF_DAMPED = False, PGM_DIR_REV = False,
     PGM_RCP_PWM_POL = False, PGM_PWM_HIGH_FREQ = False, RCP_PPM = False,
     T3_PENDING = False\<rparr>"

text \<open>The state of the C globals before \<^verbatim>\<open>main\<close> runs: everything zero, all switches off.\<close>

definition zero_state :: state where
  "zero_state = \<lparr>Temp1 = 0, Temp3 = 0, Temp7 = 0, Temp8 = 0, A = 0, TL1 = 0,
     Requested_Pwm = 0, Governor_Req_Pwm = 0, Current_Pwm = 0, Current_Pwm_Limited = 0,
     Rcp_Timeout_Cnt = 0, F = zero_Flags, DPTR = None, runState = run1,
     Startup_Rot_Cnt = 0, Startup_Ok_Cnt = 0, Demag_Detected_Metric = 0, Comm_Period4x = 0,
     Comm_Phase = 0, Comparator_Read_Cnt = 0, Gov_Target = 0, Gov_Integral = 0,
     Gov_Integral_X = 0, Gov_Proportional = 0, Gov_Active = 0, Wt_Comm = 0, New_Rcp = 0,
     Rcp_Stop_Cnt = 0, Auto_Bailout_Armed = 0, Pwm_Limit = 0, Pwm_Limit_Spoolup = 0,
     Pwm_Limit_Low_Rpm = 0, Pwm_Spoolup_Beg = 0, Pwm_Motor_Idle = 0, Spoolup_Limit_Cnt = 0,
     Spoolup_Limit_Skip = 0, P = zero_Params, FET = (\<lambda>l sd. False), Log = []\<rparr>"

text \<open>An active governor with a non-zero proportional error, throttle at stop.\<close>

definition governing_state :: state where
  "governing_state =
     zero_state\<lparr>Gov_Active := 1, Gov_Proportional := 5, Gov_Integral_X := 9,
                Requested_Pwm := 7, Current_Pwm := 40\<rparr>"

text \<open>
  The state \<^verbatim>\<open>init_start\<close> leaves for the first commutation: startup phase, slowest
  commutation period, governor inactive; a governor range is selected and the throttle
  is above the stop value.
\<close>

definition startup_state :: state where
  "startup_state =
     zero_state\<lparr>P := zero_Params\<lparr>Gov_Mode := 1\<rparr>, Requested_Pwm := 1, New_Rcp := 50,
                Comm_Period4x := 0x7F00,
                F := zero_Flags\<lparr>STARTUP_PHASE := True, MOTOR_SPINNING := True\<rparr>\<rparr>"

text \<open>A running motor with a governor target and pwm limits set.\<close>

definition running_state :: state where
  "running_state =
     zero_state\<lparr>P := zero_Params\<lparr>Gov_Mode := 1\<rparr>, Requested_Pwm := 100,
                Gov_Target := 7, Pwm_Limit := 255, Pwm_Limit_Spoolup := 200,
                Pwm_Limit_Low_Rpm := 180, Comm_Period4x := 0x2000,
                F := zero_Flags\<lparr>MOTOR_SPINNING := True\<rparr>\<rparr>"




subsection \<open>Frames\<close>

text \<open>\<open>keeps g f\<close>: the routine \<open>f\<close> leaves the observation \<open>g\<close> of the state unchanged.\<close>

definition keeps :: "(state \<Rightarrow> 'a) \<Rightarrow> (state \<Rightarrow> state) \<Rightarrow> bool" where
  "keeps g f \<longleftrightarrow> (\<forall>s. g (f s) = g s)"

text \<open>\<open>hw_only f\<close>: the routine \<open>f\<close> changes nothing but the power stage and the log.\<close>

definition hw_only :: "(state \<Rightarrow> state) \<Rightarrow> bool" where
  "hw_only f \<longleftrightarrow> (\<forall>s. f s = s\<lparr>FET := FET (f s), Log := Log (f s)\<rparr>)"

section \<open>Basic facts\<close>

lemma seq_Nil [simp]: "seq [] s = s"
  by (simp add: seq_def)

lemma seq_Cons [simp]: "seq (f # fs) s = seq fs (f s)"
  by (simp add: seq_def)

lemmas fet_defs =
  setSwitch_def AnFET_on_def AnFET_off_def ApFET_on_def ApFET_off_def
  BnFET_on_def BnFET_off_def BpFET_on_def BpFET_off_def
  CnFET_on_def CnFET_off_def CpFET_on_def CpFET_off_def
  All_nFETs_on_def All_nFETs_off_def All_pFETs_on_def All_pFETs_off_def
  Set_Comp_Phase_A_def Set_Comp_Phase_B_def Set_Comp_Phase_C_def
  Clear_RPM_Out_def Set_RPM_Out_def Delay1uS_def FET_DELAY_def switch_power_off_def

lemmas zero_defs = zero_state_def zero_Flags_def zero_Params_def

lemma FET_DELAY_loop_nonpositive: "\<not> 0 <s n \<Longrightarrow> FET_DELAY_loop n k = k"
  by (simp add: FET_DELAY_loop.simps)

lemma governor_activate_cases:
  "governor_activate s =
     (if Requested_Pwm s = 0 then Inl Division_By_Zero
      else Inr (s\<lparr>Gov_Active := c_bool (Gov_Mode (P s) \<noteq> 0),
                  Governor_Req_Pwm := Requested_Pwm s,
                  Comm_Period4x := word_of_int (51000 sdiv sint (Requested_Pwm s)) * 2\<rparr>))"
  by (simp add: governor_activate_def c_div_def Let_def)

lemma DoHousekeeping_loop_Some_not_initial:
  assumes "DoHousekeeping_loop st s = Some y"
  shows "st \<noteq> initialState"
  using assms
proof (induction rule: DoHousekeeping_loop.raw_induct[rotated 1, consumes 1])
  case (1 f st s y)
  show ?case
  proof
    assume "st = initialState"
    with 1(2) have "f initialState s = Some y" by simp
    from 1(1)[OF this] show False by simp
  qed
qed

subsection \<open>Frame rules\<close>

lemma keepsD: "keeps g f \<Longrightarrow> g (f s) = g s"
  by (simp add: keeps_def)

lemma keeps_id: "keeps g (\<lambda>s. s)"
  by (simp add: keeps_def)

lemma keeps_seq_Nil: "keeps g (seq [])"
  by (simp add: keeps_def)

lemma keeps_seq_Cons: "keeps g f \<Longrightarrow> keeps g (seq fs) \<Longrightarrow> keeps g (seq (f # fs))"
  by (simp add: keeps_def)

lemma keeps_if: "keeps g f1 \<Longrightarrow> keeps g f2 \<Longrightarrow> keeps g (\<lambda>s. if c s then f1 s else f2 s)"
  by (simp add: keeps_def)

lemma keeps_comp: "keeps g f \<Longrightarrow> keeps (\<lambda>s. h (g s)) f"
  by (simp add: keeps_def)

lemma hw_only_seq_Nil: "hw_only (seq [])"
  by (simp add: hw_only_def)

lemma hw_only_seq_Cons:
  assumes "hw_only f" and "hw_only (seq fs)"
  shows "hw_only (seq (f # fs))"
  unfolding hw_only_def
proof
  fix s
  from assms(1) have 1: "f s = s\<lparr>FET := FET (f s), Log := Log (f s)\<rparr>"
    by (simp add: hw_only_def)
  from assms(2) have "seq fs (f s) = (f s)\<lparr>FET := FET (seq fs (f s)), Log := Log (seq fs (f s))\<rparr>"
    by (simp add: hw_only_def)
  also have "\<dots> = s\<lparr>FET := FET (seq fs (f s)), Log := Log (seq fs (f s))\<rparr>"
    by (subst 1) simp
  finally show "seq (f # fs) s = s\<lparr>FET := FET (seq (f # fs) s), Log := Log (seq (f # fs) s)\<rparr>"
    by simp
qed

lemma hw_only_setSwitch: "hw_only (setSwitch l sd on)"
  by (simp add: hw_only_def setSwitch_def)

lemma hw_only_FET:
  "hw_only AnFET_on" "hw_only AnFET_off" "hw_only ApFET_on" "hw_only ApFET_off"
  "hw_only BnFET_on" "hw_only BnFET_off" "hw_only BpFET_on" "hw_only BpFET_off"
  "hw_only CnFET_on" "hw_only CnFET_off" "hw_only CpFET_on" "hw_only CpFET_off"
  by (simp_all add: AnFET_on_def AnFET_off_def ApFET_on_def ApFET_off_def BnFET_on_def
      BnFET_off_def BpFET_on_def BpFET_off_def CnFET_on_def CnFET_off_def CpFET_on_def
      CpFET_off_def hw_only_setSwitch)

lemma hw_only_All:
  "hw_only All_nFETs_on" "hw_only All_nFETs_off" "hw_only All_pFETs_on" "hw_only All_pFETs_off"
  unfolding All_nFETs_on_def All_nFETs_off_def All_pFETs_on_def All_pFETs_off_def
  by (intro hw_only_seq_Cons hw_only_seq_Nil hw_only_FET)+

lemma hw_only_misc:
  "hw_only Set_Comp_Phase_A" "hw_only Set_Comp_Phase_B" "hw_only Set_Comp_Phase_C"
  "hw_only Clear_RPM_Out" "hw_only Set_RPM_Out" "hw_only (Delay1uS d)" "hw_only (FET_DELAY d)"
  by (simp_all add: hw_only_def Set_Comp_Phase_A_def Set_Comp_Phase_B_def Set_Comp_Phase_C_def
      Clear_RPM_Out_def Set_RPM_Out_def Delay1uS_def FET_DELAY_def)

lemma hw_only_switch_power_off: "hw_only switch_power_off"
  unfolding switch_power_off_def by (intro hw_only_seq_Cons hw_only_seq_Nil hw_only_All)

lemmas hw_only_prims = hw_only_FET hw_only_All hw_only_misc hw_only_switch_power_off

lemma hw_only_fields:
  assumes "hw_only f"
  shows "runState (f s) = runState s" and "Comm_Phase (f s) = Comm_Phase s"
    and "P (f s) = P s" and "F (f s) = F s" and "Requested_Pwm (f s) = Requested_Pwm s"
proof -
  from assms have eq: "f s = s\<lparr>FET := FET (f s), Log := Log (f s)\<rparr>"
    by (simp add: hw_only_def)
  show "runState (f s) = runState s" by (subst eq) simp
  show "Comm_Phase (f s) = Comm_Phase s" by (subst eq) simp
  show "P (f s) = P s" by (subst eq) simp
  show "F (f s) = F s" by (subst eq) simp
  show "Requested_Pwm (f s) = Requested_Pwm s" by (subst eq) simp
qed

lemmas prim_frame =
  hw_only_prims [THEN hw_only_fields(1)] hw_only_prims [THEN hw_only_fields(2)]
  hw_only_prims [THEN hw_only_fields(3)] hw_only_prims [THEN hw_only_fields(4)]
  hw_only_prims [THEN hw_only_fields(5)]

lemma keeps_comm_exit: "keeps (\<lambda>s. (runState s, Comm_Phase s, P s)) comm_exit"
  unfolding comm_exit_def
  by (intro keeps_seq_Cons keeps_seq_Nil keeps_if keeps_id; simp add: keeps_def prim_frame)

lemmas comm_exit_frame = keeps_comm_exit [THEN keepsD, simplified]

lemma keeps_comm:
  "keeps (\<lambda>s. (runState s, P s)) comm1comm2" "keeps (\<lambda>s. (runState s, P s)) comm2comm3"
  "keeps (\<lambda>s. (runState s, P s)) comm3comm4" "keeps (\<lambda>s. (runState s, P s)) comm4comm5"
  "keeps (\<lambda>s. (runState s, P s)) comm5comm6" "keeps (\<lambda>s. (runState s, P s)) comm6comm1"
  unfolding comm1comm2_def comm2comm3_def comm3comm4_def comm4comm5_def comm5comm6_def
    comm6comm1_def
  by (intro keeps_seq_Cons keeps_seq_Nil keeps_if keeps_id;
      simp add: keeps_def prim_frame comm_exit_frame)+

lemmas comm_frame = keeps_comm [THEN keepsD, simplified]

subsection \<open>Frames of the routines\<close>

lemmas run_defs = run1_def run2_def run3_def run4_def run5_def run6_def

lemmas idle_defs =
  calc_governor_int_error_def set_pwm_limit_low_rpm_def start_adc_conversion_def
  check_temp_voltage_and_limit_power_def calc_next_comm_timing_def wait_advance_timing_def
  calc_new_wait_times_def wait_before_zc_scan_def evaluate_comparator_integrity_def
  wait_for_comm_def t0_int_pwm_on_exit_def comp_wait_on_comp_able_not_timed_out_def

lemma governor_frame:
  "runState (governor_deactivate s) = runState s"
  "Comm_Phase (governor_deactivate s) = Comm_Phase s"
  "P (governor_deactivate s) = P s"
  "runState (calc_governor_prop_error s) = runState s"
  "Comm_Phase (calc_governor_prop_error s) = Comm_Phase s"
  "P (calc_governor_prop_error s) = P s"
  "runState (calc_governor_prop_correction s) = runState s"
  "Comm_Phase (calc_governor_prop_correction s) = Comm_Phase s"
  "P (calc_governor_prop_correction s) = P s"
  "runState (calc_governor_int_correction s) = runState s"
  "Comm_Phase (calc_governor_int_correction s) = Comm_Phase s"
  "P (calc_governor_int_correction s) = P s"
  by (simp_all add: governor_deactivate_def calc_governor_prop_error_def
      calc_governor_prop_correction_def calc_governor_int_correction_def)

lemma calc_governor_target_frame:
  assumes "calc_governor_target s = Inr s'"
  shows "runState s' = runState s" and "Comm_Phase s' = Comm_Phase s" and "P s' = P s"
  using assms
  by (auto simp add: calc_governor_target_def governor_activate_cases governor_frame
      split: if_splits)

lemma wait_for_comp_out_frame:
  "runState (wait_for_comp_out_low s) = runState s"
  "Comm_Phase (wait_for_comp_out_low s) = Comm_Phase s"
  "P (wait_for_comp_out_low s) = P s"
  "Requested_Pwm (wait_for_comp_out_low s) = Requested_Pwm s"
  "runState (wait_for_comp_out_high s) = runState s"
  "Comm_Phase (wait_for_comp_out_high s) = Comm_Phase s"
  "P (wait_for_comp_out_high s) = P s"
  "Requested_Pwm (wait_for_comp_out_high s) = Requested_Pwm s"
  by (simp_all add: wait_for_comp_out_low_def wait_for_comp_out_high_def)

lemma set_comparator_readings_frame:
  "runState (set_comparator_readings s) = runState s"
  "Comm_Phase (set_comparator_readings s) = Comm_Phase s"
  "P (set_comparator_readings s) = P s"
  by (simp_all add: set_comparator_readings_def)

lemma comp_wait_loop_Some:
  assumes "comp_wait_loop s = Some s'"
  shows "s' = s"
  using assms
proof (induction rule: comp_wait_loop.raw_induct[rotated 1, consumes 1])
  case (1 f s s')
  then show ?case
    by (auto simp add: comp_wait_on_comp_able_not_timed_out_def split: if_splits)
qed

lemma keeps_decode_parameters:
  "keeps (\<lambda>s. (runState s, Comm_Phase s, (P s)\<lparr>Pwm_Freq := x\<rparr>)) decode_parameters"
  unfolding decode_parameters_def
  by (intro keeps_seq_Cons keeps_seq_Nil keeps_if keeps_id; simp add: keeps_def)

lemmas decode_parameters_frame = keeps_decode_parameters [THEN keepsD, simplified]

lemma keeps_init_start: "keeps (\<lambda>s. (P s)\<lparr>Pwm_Freq := x\<rparr>) init_start"
  unfolding init_start_def
  by (intro keeps_seq_Cons keeps_seq_Nil keeps_if keeps_id;
      simp add: keeps_def prim_frame comm_frame decode_parameters_frame idle_defs
        initialize_all_timings_def)

lemma init_start_runState: "runState (init_start s) = run1"
  by (simp add: init_start_def)

lemma Comm_Phase_comm:
  "Comm_Phase (comm1comm2 s) = 2" "Comm_Phase (comm2comm3 s) = 3"
  "Comm_Phase (comm3comm4 s) = 4" "Comm_Phase (comm4comm5 s) = 5"
  "Comm_Phase (comm5comm6 s) = 6" "Comm_Phase (comm6comm1 s) = 1"
  by (simp_all add: comm1comm2_def comm2comm3_def comm3comm4_def comm4comm5_def
      comm5comm6_def comm6comm1_def comm_exit_frame)

lemma init_start_Comm_Phase: "Comm_Phase (init_start s) = 1"
  by (simp add: init_start_def idle_defs initialize_all_timings_def Comm_Phase_comm)

lemma DoHousekeeping_step_frame:
  "runState (snd (DoHousekeeping_step st s)) = runState s \<or>
   runState (snd (DoHousekeeping_step st s)) = run1"
  "Comm_Phase (snd (DoHousekeeping_step st s)) = Comm_Phase s"
  "P (snd (DoHousekeeping_step st s)) = P s"
  by (cases st; simp add: Let_def prim_frame)+

lemma hw_only_pwm:
  "hw_only (call_FETFuncPtr p)"
  by (cases p; simp add: pwm_noBnFET_off_def pwm_aBnFET_off_def pwm_bBnFET_off_def
      pwm_cBnFET_off_def pwm_anfet_bpBnFET_off_def pwm_anfet_cpBnFET_off_def
      pwm_bnfet_cpBnFET_off_def pwm_bnfet_apBnFET_off_def pwm_cnfet_apBnFET_off_def
      pwm_cnfet_bpBnFET_off_def;
      intro hw_only_seq_Cons hw_only_seq_Nil hw_only_prims;
      simp add: hw_only_def t0_int_pwm_on_exit_def)

lemma main_switch_run1:
  assumes "runState s = run1"
  shows "main_switch s =
     (if Gov_Mode (P s) \<noteq> 0 \<and> Requested_Pwm s = 0 then Inl Division_By_Zero
      else Inr (seq [wait_for_comm, comm1comm2, (\<lambda>s. s\<lparr>runState := runState s + 1\<rparr>)]
                 (if Gov_Mode (P s) \<noteq> 0
                  then (wait_for_comp_out_high s)
                         \<lparr>Gov_Active := c_bool (Gov_Mode (P s) \<noteq> 0),
                          Governor_Req_Pwm := Requested_Pwm s,
                          Comm_Period4x := word_of_int (51000 sdiv sint (Requested_Pwm s)) * 2\<rparr>
                  else if New_Rcp (wait_for_comp_out_high s) <s RCP_STOP
                       then governor_deactivate (wait_for_comp_out_high s)
                       else wait_for_comp_out_high s)))"
  using assms
  by (simp add: main_switch_def calc_governor_target_def governor_activate_cases
      wait_for_comp_out_frame)


lemma run_to_wait_for_power_on_Requested_Pwm:
  "Requested_Pwm (snd (DoHousekeeping_step run_to_wait_for_power_on s)) = 0"
  by (simp add: Let_def prim_frame)

subsection \<open>The run switch\<close>

lemma main_switch_run2_6:
  "runState s = run2 \<Longrightarrow> main_switch s =
     Inr (seq [wait_for_comp_out_low, calc_governor_prop_error, set_pwm_limit_low_rpm,
               wait_for_comm, comm2comm3, (\<lambda>s. s\<lparr>runState := runState s + 1\<rparr>)] s)"
  "runState s = run3 \<Longrightarrow> main_switch s =
     Inr (seq [wait_for_comp_out_high, calc_governor_int_error, wait_for_comm,
               comm3comm4, (\<lambda>s. s\<lparr>runState := runState s + 1\<rparr>)] s)"
  "runState s = run4 \<Longrightarrow> main_switch s =
     Inr (seq [wait_for_comp_out_low, evaluate_comparator_integrity, setup_comm_wait,
               calc_governor_prop_correction, wait_for_comm, comm4comm5,
               (\<lambda>s. s\<lparr>runState := runState s + 1\<rparr>)] s)"
  "runState s = run5 \<Longrightarrow> main_switch s =
     Inr (seq [wait_for_comp_out_high, calc_governor_int_correction, wait_for_comm,
               comm5comm6, (\<lambda>s. s\<lparr>runState := runState s + 1\<rparr>)] s)"
  "runState s = run6 \<Longrightarrow> main_switch s =
     Inr (seq [wait_for_comp_out_low, start_adc_conversion,
               evaluate_comparator_integrity, setup_comm_wait,
               check_temp_voltage_and_limit_power, wait_for_comm, comm6comm1,
               (\<lambda>s. s\<lparr>runState := run1\<rparr>)] s)"
  "runState s \<notin> {run1, run2, run3, run4, run5, run6} \<Longrightarrow> main_switch s = Inr s"
  by (simp_all add: main_switch_def run_defs)

lemmas routine_frame =
  prim_frame comm_frame Comm_Phase_comm governor_frame wait_for_comp_out_frame
  set_comparator_readings_frame idle_defs setup_comm_wait_def

lemma main_switch_advance:
  "runState s = run1 \<and> (Gov_Mode (P s) = 0 \<or> Requested_Pwm s \<noteq> 0) \<Longrightarrow>
     \<exists>s'. main_switch s = Inr s' \<and> runState s' = run2 \<and> Comm_Phase s' = 2 \<and> P s' = P s"
  "runState s = run2 \<Longrightarrow>
     \<exists>s'. main_switch s = Inr s' \<and> runState s' = run3 \<and> Comm_Phase s' = 3 \<and> P s' = P s"
  "runState s = run3 \<Longrightarrow>
     \<exists>s'. main_switch s = Inr s' \<and> runState s' = run4 \<and> Comm_Phase s' = 4 \<and> P s' = P s"
  "runState s = run4 \<Longrightarrow>
     \<exists>s'. main_switch s = Inr s' \<and> runState s' = run5 \<and> Comm_Phase s' = 5 \<and> P s' = P s"
  "runState s = run5 \<Longrightarrow>
     \<exists>s'. main_switch s = Inr s' \<and> runState s' = run6 \<and> Comm_Phase s' = 6 \<and> P s' = P s"
  "runState s = run6 \<Longrightarrow>
     \<exists>s'. main_switch s = Inr s' \<and> runState s' = run1 \<and> Comm_Phase s' = 1 \<and> P s' = P s"
       apply (auto simp add: main_switch_run1 routine_frame run_defs)[1]
      apply (simp add: main_switch_run2_6 routine_frame, simp add: run_defs)
     apply (simp add: main_switch_run2_6 routine_frame, simp add: run_defs)
    apply (simp add: main_switch_run2_6 routine_frame, simp add: run_defs)
   apply (simp add: main_switch_run2_6 routine_frame, simp add: run_defs)
  apply (simp add: main_switch_run2_6 routine_frame)
  done


lemma main_switch_P:
  assumes "main_switch s = Inr s'"
  shows "P s' = P s"
proof -
  consider "runState s = run1" | "runState s = run2" | "runState s = run3"
    | "runState s = run4" | "runState s = run5" | "runState s = run6"
    | "runState s \<notin> {run1, run2, run3, run4, run5, run6}" by auto
  then show ?thesis
  proof cases
    case 1
    with assms have "Gov_Mode (P s) = 0 \<or> Requested_Pwm s \<noteq> 0"
      by (auto simp add: main_switch_run1 split: if_splits)
    with 1 main_switch_advance(1) [of s] assms show ?thesis by auto
  next
    case 2 with main_switch_advance(2) [of s] assms show ?thesis by auto
  next
    case 3 with main_switch_advance(3) [of s] assms show ?thesis by auto
  next
    case 4 with main_switch_advance(4) [of s] assms show ?thesis by auto
  next
    case 5 with main_switch_advance(5) [of s] assms show ?thesis by auto
  next
    case 6 with main_switch_advance(6) [of s] assms show ?thesis by auto
  next
    case 7 with main_switch_run2_6(6) [of s] assms show ?thesis by auto
  qed
qed

lemma DoHousekeeping_step_runState:
  assumes "runState s \<in> {run1, run2, run3, run4, run5, run6}"
  shows "runState (snd (DoHousekeeping_step st s)) \<in> {run1, run2, run3, run4, run5, run6}"
  using assms DoHousekeeping_step_frame(1) [of st s] by auto

lemma wait_for_comp_out_not_timed_out_frame:
  assumes "wait_for_comp_out_not_timed_out s = Some s'"
  shows "Comm_Phase s' = Comm_Phase s" and "P s' = P s" and "runState s' = runState s"
  using comp_wait_loop_Some [of "set_comparator_readings s" s'] assms
  by (simp_all add: wait_for_comp_out_not_timed_out_def set_comparator_readings_frame)

lemmas pwm_frame = hw_only_pwm [THEN hw_only_fields(1)] hw_only_pwm [THEN hw_only_fields(2)]
  hw_only_pwm [THEN hw_only_fields(3)]

lemma t0_int_pwm_off_damped_frame:
  "runState (t0_int_pwm_off_damped s) = runState s"
  "Comm_Phase (t0_int_pwm_off_damped s) = Comm_Phase s"
  "P (t0_int_pwm_off_damped s) = P s"
  by (simp_all add: t0_int_pwm_off_damped_def t0_int_pwm_off_exit_def prim_frame)

subsection \<open>Start and the commutation loop\<close>

lemma hw_only_Temp1: "hw_only f \<Longrightarrow> Temp1 (f s) = Temp1 s"
proof -
  assume "hw_only f"
  then have eq: "f s = s\<lparr>FET := FET (f s), Log := Log (f s)\<rparr>"
    by (simp add: hw_only_def)
  show "Temp1 (f s) = Temp1 s" by (subst eq) simp
qed

lemmas prim_Temp1 = hw_only_prims [THEN hw_only_Temp1]

lemma keeps_comm_exit_pwm: "keeps (\<lambda>s. (Requested_Pwm s, Temp1 s)) comm_exit"
  unfolding comm_exit_def
  by (intro keeps_seq_Cons keeps_seq_Nil keeps_if keeps_id;
      simp add: keeps_def prim_frame prim_Temp1)

lemmas comm_exit_pwm = keeps_comm_exit_pwm [THEN keepsD, simplified]

lemma keeps_comm_pwm:
  "keeps (\<lambda>s. (Requested_Pwm s, Temp1 s)) comm5comm6"
  "keeps (\<lambda>s. (Requested_Pwm s, Temp1 s)) comm6comm1"
  unfolding comm5comm6_def comm6comm1_def
  by (intro keeps_seq_Cons keeps_seq_Nil keeps_if keeps_id;
      simp add: keeps_def prim_frame prim_Temp1 comm_exit_pwm)+

lemmas comm_pwm = keeps_comm_pwm [THEN keepsD, simplified]

lemma decode_parameters_effect:
  "Pwm_Freq (P (decode_parameters s)) = 3"
  "Requested_Pwm (decode_parameters s) = Requested_Pwm s"
  "Temp1 (decode_parameters s) = Temp1 s"
  "Temp7 (decode_parameters s) = Temp7 s"
  by (simp_all add: decode_parameters_def)

lemma init_start_effect:
  "Pwm_Freq (P (init_start s)) = 3"
  "Requested_Pwm (init_start s) = 1"
  "Temp1 (init_start s) = Pwm_Freq (P s)"
  by (simp_all add: init_start_def idle_defs initialize_all_timings_def comm_frame comm_pwm
      prim_frame prim_Temp1 decode_parameters_effect)




section \<open>Claims\<close>

text \<open>
  C1. The phase-switching routines put a dead-time delay between turning one switch of a
  leg off and the complementary one on, and that delay is non-zero. The code puts
  \<^verbatim>\<open>FET_DELAY(NFETON_DELAY)\<close> there, but \<^verbatim>\<open>NFETON_DELAY\<close> (like \<^verbatim>\<open>PFETON_DELAY\<close>) is 0,
  so the busy-wait loop runs zero times: in the damped pwm-on routine of state 6 the
  high-side switch of leg A is commanded off and the low-side switch of the same leg is
  commanded on with a delay of zero iterations between them, and in the damped pwm-off
  routine the same happens on leg C, low side off and then high side on.
\<close>

theorem pwm_anfet_bpBnFET_off_zero_dead_time:
  "FET_DELAY_loop NFETON_DELAY 0 = 0 \<and>
   FET_DELAY_loop PFETON_DELAY 0 = 0 \<and>
   Log (pwm_anfet_bpBnFET_off s) =
     Log s @ [Switch LegA High False, Switch LegC High False, Delay 0,
              Switch LegA Low True, Switch LegB Low False] \<and>
   Log (t0_int_pwm_off_damped s) =
     Log s @ [Switch LegA Low False, Switch LegB Low False, Switch LegC Low False, Delay 0,
              Switch LegC High True]"
  by (simp add: pwm_anfet_bpBnFET_off_def t0_int_pwm_off_damped_def t0_int_pwm_off_exit_def
      fet_defs t0_int_pwm_on_exit_def NFETON_DELAY_def PFETON_DELAY_def
      FET_DELAY_loop_nonpositive)

text \<open>
  C2, as stated, fails: \<^verbatim>\<open>governor_deactivate\<close> does not reset the proportional error.
\<close>

theorem governor_deactivate_keeps_proportional_counterexample:
  "Gov_Proportional (governor_deactivate governing_state) \<noteq> 0"
  by (simp add: governor_deactivate_def governing_state_def)

text \<open>
  C2, amended. Whenever \<^verbatim>\<open>calc_governor_target\<close> takes the governor from active to
  inactive it does so through \<^verbatim>\<open>governor_deactivate\<close>; after \<^verbatim>\<open>governor_deactivate\<close> the
  governor target, \<open>Gov_Integral\<close> and \<open>Gov_Integral_X\<close> are zero, the governor is inactive
  and \<open>Current_Pwm\<close> equals \<open>Requested_Pwm\<close>; \<open>Gov_Proportional\<close> keeps its value.
\<close>

theorem governor_deactivate_resets:
  "(calc_governor_target s = Inr s' \<and> Gov_Active s \<noteq> 0 \<and> Gov_Active s' = 0
      \<longrightarrow> s' = governor_deactivate s) \<and>
   Gov_Target (governor_deactivate s) = 0 \<and>
   Gov_Integral (governor_deactivate s) = 0 \<and>
   Gov_Integral_X (governor_deactivate s) = 0 \<and>
   Gov_Active (governor_deactivate s) = 0 \<and>
   Current_Pwm (governor_deactivate s) = Requested_Pwm s \<and>
   Requested_Pwm (governor_deactivate s) = Requested_Pwm s \<and>
   Gov_Proportional (governor_deactivate s) = Gov_Proportional s"
  by (auto simp add: calc_governor_target_def governor_activate_cases governor_deactivate_def
      c_bool_def split: if_splits)

theorem governor_deactivate_resets_witness:
  "calc_governor_target governing_state = Inr (governor_deactivate governing_state) \<and>
   Gov_Active governing_state \<noteq> 0 \<and>
   Gov_Active (governor_deactivate governing_state) = 0 \<and>
   Gov_Integral_X (governor_deactivate governing_state) = 0 \<and>
   Current_Pwm (governor_deactivate governing_state) = 7 \<and>
   Gov_Proportional (governor_deactivate governing_state) = 5"
  using governor_deactivate_resets [of governing_state "governor_deactivate governing_state"]
  by (simp add: calc_governor_target_def governor_deactivate_def governing_state_def zero_defs
      RCP_STOP_def c_bool_def word_sless_alt)

text \<open>
  C3, as stated, fails: in the startup phase and at the slowest commutation period, with
  a governor range selected and the throttle above the stop value,
  \<^verbatim>\<open>calc_governor_target\<close> activates the governor.
\<close>

theorem calc_governor_target_activates_in_startup_counterexample:
  "STARTUP_PHASE (F startup_state) \<and> \<not> New_Rcp startup_state <s RCP_STOP \<and>
   Gov_Active startup_state = 0 \<and>
   calc_governor_target startup_state =
     Inr (startup_state\<lparr>Gov_Active := 1, Governor_Req_Pwm := 1, Comm_Period4x := 102000\<rparr>)"
  by (simp add: calc_governor_target_def governor_activate_cases startup_state_def zero_defs
      RCP_STOP_def c_bool_def word_sless_alt)

text \<open>
  C3, amended. In this build \<^verbatim>\<open>calc_governor_target\<close> takes the governor from inactive
  to active without consulting the startup and initial-run flags or the measured speed:
  with a governor range selected (\<open>Gov_Mode\<close> 1, 2 or 3), the throttle at or above the
  stop value and \<open>Requested_Pwm\<close> non-zero it sets \<open>Gov_Active\<close>, and whether it activates
  never depends on those flags or on the commutation period.
\<close>

theorem calc_governor_target_activation:
  "(Gov_Mode (P s) \<in> {1, 2, 3} \<and> \<not> New_Rcp s <s RCP_STOP \<and> Requested_Pwm s \<noteq> 0 \<longrightarrow>
      (\<exists>s'. calc_governor_target s = Inr s' \<and> Gov_Active s' = 1)) \<and>
   map_sum id Gov_Active (calc_governor_target (s\<lparr>F := f, Comm_Period4x := c\<rparr>)) =
     map_sum id Gov_Active (calc_governor_target s)"
  by (auto simp add: calc_governor_target_def governor_activate_cases governor_deactivate_def
      c_bool_def)

theorem calc_governor_target_activation_witness:
  "Gov_Mode (P startup_state) \<in> {1, 2, 3} \<and> \<not> New_Rcp startup_state <s RCP_STOP \<and>
   Requested_Pwm startup_state \<noteq> 0 \<and>
   (\<exists>s'. calc_governor_target startup_state = Inr s' \<and> Gov_Active s' = 1) \<and>
   map_sum id Gov_Active
     (calc_governor_target (startup_state\<lparr>F := zero_Flags, Comm_Period4x := 0\<rparr>)) = Inr 1"
proof -
  have h: "Gov_Mode (P startup_state) \<in> {1, 2, 3}" "\<not> New_Rcp startup_state <s RCP_STOP"
    "Requested_Pwm startup_state \<noteq> 0"
    by (simp_all add: startup_state_def zero_defs RCP_STOP_def word_sless_alt)
  from calc_governor_target_activation
      [where s = startup_state and f = zero_Flags and c = 0] h
  show ?thesis by auto
qed

text \<open>
  C4. The number of OK comparator readings required never decreases as the commutation
  period grows. The code requires 30 readings at period \<open>0x0500\<close> and 2 at the larger
  period \<open>0x0501\<close>.
\<close>

theorem wait_for_comp_out_readings_not_monotone:
  "map_option Temp1 (wait_for_comp_out_not_timed_out (zero_state\<lparr>Comm_Period4x := 0x0500\<rparr>))
     = Some 30 \<and>
   map_option Temp1 (wait_for_comp_out_not_timed_out (zero_state\<lparr>Comm_Period4x := 0x0501\<rparr>))
     = Some 2 \<and>
   Temp1 (set_comparator_readings (s\<lparr>Comm_Period4x := 0x0500\<rparr>)) = 30 \<and>
   Temp1 (set_comparator_readings (s\<lparr>Comm_Period4x := 0x0501\<rparr>)) = 2"
  by (simp add: wait_for_comp_out_not_timed_out_def comp_wait_loop.simps
      set_comparator_readings_def zero_defs)




text \<open>
  C6, as stated, fails: the \<^verbatim>\<open>run_to_wait_for_power_on\<close> transition leaves the governor
  target and the three pwm limits as they were.
\<close>

theorem run_to_wait_for_power_on_keeps_target_and_limits_counterexample:
  "Gov_Target (snd (DoHousekeeping_step run_to_wait_for_power_on running_state)) \<noteq> 0 \<and>
   Pwm_Limit (snd (DoHousekeeping_step run_to_wait_for_power_on running_state)) \<noteq> 0 \<and>
   Pwm_Limit_Spoolup (snd (DoHousekeeping_step run_to_wait_for_power_on running_state)) \<noteq> 0 \<and>
   Pwm_Limit_Low_Rpm (snd (DoHousekeeping_step run_to_wait_for_power_on running_state)) \<noteq> 0"
  by (simp add: Let_def fet_defs running_state_def)

text \<open>
  C6, amended. After the \<^verbatim>\<open>run_to_wait_for_power_on\<close> transition every switch is
  commanded off, \<open>Requested_Pwm\<close>, \<open>Governor_Req_Pwm\<close>, \<open>Current_Pwm\<close>,
  \<open>Current_Pwm_Limited\<close> and \<open>Pwm_Motor_Idle\<close> are zero and the motor-spinning flag is
  clear; the governor target and the pwm limits \<open>Pwm_Limit\<close>, \<open>Pwm_Limit_Spoolup\<close> and
  \<open>Pwm_Limit_Low_Rpm\<close> are unchanged.
\<close>

theorem run_to_wait_for_power_on_effect:
  "fst (DoHousekeeping_step run_to_wait_for_power_on s) = wait_for_power_on \<and>
   FET (snd (DoHousekeeping_step run_to_wait_for_power_on s)) l sd = False \<and>
   Requested_Pwm (snd (DoHousekeeping_step run_to_wait_for_power_on s)) = 0 \<and>
   Governor_Req_Pwm (snd (DoHousekeeping_step run_to_wait_for_power_on s)) = 0 \<and>
   Current_Pwm (snd (DoHousekeeping_step run_to_wait_for_power_on s)) = 0 \<and>
   Current_Pwm_Limited (snd (DoHousekeeping_step run_to_wait_for_power_on s)) = 0 \<and>
   Pwm_Motor_Idle (snd (DoHousekeeping_step run_to_wait_for_power_on s)) = 0 \<and>
   MOTOR_SPINNING (F (snd (DoHousekeeping_step run_to_wait_for_power_on s))) = False \<and>
   Gov_Target (snd (DoHousekeeping_step run_to_wait_for_power_on s)) = Gov_Target s \<and>
   Pwm_Limit (snd (DoHousekeeping_step run_to_wait_for_power_on s)) = Pwm_Limit s \<and>
   Pwm_Limit_Spoolup (snd (DoHousekeeping_step run_to_wait_for_power_on s)) =
     Pwm_Limit_Spoolup s \<and>
   Pwm_Limit_Low_Rpm (snd (DoHousekeeping_step run_to_wait_for_power_on s)) =
     Pwm_Limit_Low_Rpm s"
  by (cases l; cases sd) (simp_all add: Let_def fet_defs)


text \<open>
  C8. No core operation writes a field of \<open>P\<close>. In the code \<^verbatim>\<open>decode_parameters\<close> stores
  3 in \<^verbatim>\<open>P.Pwm_Freq\<close> (the test \<^verbatim>\<open>if (P.Pwm_Freq = 3)\<close> is an assignment), and
  \<^verbatim>\<open>init_start\<close>, which overrides \<^verbatim>\<open>P.Pwm_Freq\<close> before decoding, puts the saved value
  back into \<open>Temp1\<close> (``Restore settings'') instead of \<^verbatim>\<open>P.Pwm_Freq\<close>: from the default
  \<^verbatim>\<open>P.Pwm_Freq\<close> = 1, \<^verbatim>\<open>init_start\<close> leaves \<^verbatim>\<open>P.Pwm_Freq\<close> = 3.
\<close>

theorem init_start_leaves_Pwm_Freq_overwritten:
  "Pwm_Freq (P (decode_parameters s)) = 3 \<and>
   Pwm_Freq (P (init_start s)) = 3 \<and>
   Temp1 (init_start s) = Pwm_Freq (P s) \<and>
   Pwm_Freq (P (zero_state\<lparr>P := zero_Params\<lparr>Pwm_Freq := 1\<rparr>\<rparr>)) = 1 \<and>
   Pwm_Freq (P (init_start (zero_state\<lparr>P := zero_Params\<lparr>Pwm_Freq := 1\<rparr>\<rparr>))) = 3 \<and>
   Temp1 (init_start (zero_state\<lparr>P := zero_Params\<lparr>Pwm_Freq := 1\<rparr>\<rparr>)) = 1"
  by (simp add: decode_parameters_effect init_start_effect)

text \<open>
  C9. \<^verbatim>\<open>DoHousekeeping\<close> terminates for every entry. In the code \<^verbatim>\<open>startState\<close> starts
  as \<^verbatim>\<open>initialState\<close>, which has no case label, so the loop never ends, from any state.
\<close>

theorem DoHousekeeping_never_returns: "DoHousekeeping s = None"
proof (cases "DoHousekeeping s")
  case None
  then show ?thesis .
next
  case (Some y)
  then have "initialState \<noteq> initialState"
    unfolding DoHousekeeping_def by (rule DoHousekeeping_loop_Some_not_initial)
  then show ?thesis by simp
qed

text \<open>
  C10. \<^verbatim>\<open>governor_activate\<close> divides by \<open>Requested_Pwm\<close> without a guard: its result
  is undefined exactly when \<open>Requested_Pwm\<close> is zero, and otherwise it stores
  \<open>(51000 / Requested_Pwm) * 2\<close> in \<open>Comm_Period4x\<close>. \<^verbatim>\<open>calc_governor_target\<close> calls it
  whenever \<open>Gov_Mode\<close> is non-zero, and the motor-off transition leaves \<open>Requested_Pwm\<close>
  at zero: called on the state that transition leaves, \<^verbatim>\<open>calc_governor_target\<close> divides
  by zero.
\<close>

theorem governor_activate_division:
  "(governor_activate s = Inl Division_By_Zero \<longleftrightarrow> Requested_Pwm s = 0) \<and>
   (Requested_Pwm s \<noteq> 0 \<longrightarrow>
      (\<exists>s'. governor_activate s = Inr s' \<and>
            Comm_Period4x s' = word_of_int (51000 sdiv sint (Requested_Pwm s)) * 2)) \<and>
   (Gov_Mode (P s) \<noteq> 0 \<longrightarrow> calc_governor_target s = governor_activate s) \<and>
   Requested_Pwm (snd (DoHousekeeping_step run_to_wait_for_power_on s)) = 0 \<and>
   (Gov_Mode (P s) \<noteq> 0 \<longrightarrow>
      calc_governor_target (snd (DoHousekeeping_step run_to_wait_for_power_on s)) =
        Inl Division_By_Zero)"
  by (simp add: governor_activate_cases calc_governor_target_def
      run_to_wait_for_power_on_Requested_Pwm DoHousekeeping_step_frame
      del: DoHousekeeping_step.simps)

theorem governor_activate_division_witness:
  "Gov_Mode (P running_state) \<noteq> 0 \<and> Requested_Pwm running_state \<noteq> 0 \<and>
   (\<exists>s'. governor_activate running_state = Inr s' \<and> Comm_Period4x s' = 1020) \<and>
   calc_governor_target running_state = governor_activate running_state \<and>
   Requested_Pwm (running_state\<lparr>Requested_Pwm := 0\<rparr>) = 0 \<and>
   governor_activate (running_state\<lparr>Requested_Pwm := 0\<rparr>) = Inl Division_By_Zero \<and>
   calc_governor_target (snd (DoHousekeeping_step run_to_wait_for_power_on running_state)) =
     Inl Division_By_Zero"
  using governor_activate_division [of running_state]
    governor_activate_division [of "running_state\<lparr>Requested_Pwm := 0\<rparr>"]
  by (simp add: running_state_def zero_defs del: DoHousekeeping_step.simps)

end
